theory Spec2Isabelle
  imports Complex_Main "HOL-Library.Multiset"
begin

section \<open>The OSM importer service (index.js)\<close>

text \<open>
  A shallow embedding of the importer's continuous import loop, its store pipeline and its
  \<^verbatim>\<open>/api/recent\<close> handler. JavaScript numbers that only ever hold whole numbers (indices,
  counters, millisecond durations and timestamps) are \<^typ>\<open>int\<close>, exact below \<open>2 ^ 53\<close>;
  coordinates are \<^typ>\<open>real\<close>, of which the code uses only truthiness and equality.
  \<^verbatim>\<open>log(...)\<close> only writes to the console and is left out; \<^verbatim>\<open>sleep(ms)\<close> is recorded
  in the world.
\<close>

subsection \<open>Configuration and catalog (lines 24-82)\<close>

record province =
  name :: string
  lat :: real
  lon :: real
  radius :: real

definition ALL_PROVINCES :: "province list" where
  "ALL_PROVINCES = [
     \<lparr>name = ''Metro Manila'', lat = 14.5995, lon = 120.9842, radius = 30\<rparr>,
     \<lparr>name = ''Quezon City'', lat = 14.6760, lon = 121.0437, radius = 15\<rparr>,
     \<lparr>name = ''Manila'', lat = 14.5995, lon = 120.9842, radius = 10\<rparr>,
     \<lparr>name = ''Makati'', lat = 14.5547, lon = 121.0244, radius = 8\<rparr>,
     \<lparr>name = ''BGC'', lat = 14.5507, lon = 121.0494, radius = 3\<rparr>,
     \<lparr>name = ''Ortigas'', lat = 14.5860, lon = 121.0566, radius = 3\<rparr>,
     \<lparr>name = ''Cebu'', lat = 10.3157, lon = 123.8854, radius = 25\<rparr>,
     \<lparr>name = ''Davao'', lat = 7.0731, lon = 125.6125, radius = 25\<rparr>,
     \<lparr>name = ''Baguio'', lat = 16.4119, lon = 120.5969, radius = 15\<rparr>,
     \<lparr>name = ''Iloilo'', lat = 10.7202, lon = 122.5621, radius = 20\<rparr>,
     \<lparr>name = ''Cagayan de Oro'', lat = 8.4542, lon = 124.6319, radius = 15\<rparr>,
     \<lparr>name = ''Laguna'', lat = 14.2691, lon = 121.3507, radius = 20\<rparr>,
     \<lparr>name = ''Cavite'', lat = 14.4791, lon = 120.8970, radius = 20\<rparr>,
     \<lparr>name = ''Bulacan'', lat = 14.7942, lon = 120.8795, radius = 20\<rparr>,
     \<lparr>name = ''Pampanga'', lat = 15.0794, lon = 120.6200, radius = 20\<rparr>,
     \<lparr>name = ''Rizal'', lat = 14.6037, lon = 121.3084, radius = 20\<rparr>,
     \<lparr>name = ''Batangas'', lat = 13.7565, lon = 121.0583, radius = 20\<rparr>,
     \<lparr>name = ''Negros Occidental'', lat = 10.6319, lon = 122.9823, radius = 20\<rparr>,
     \<lparr>name = ''Bohol'', lat = 9.8500, lon = 124.1435, radius = 20\<rparr>,
     \<lparr>name = ''Palawan'', lat = 9.8349, lon = 118.7384, radius = 25\<rparr>]"

definition ESTABLISHMENT_TYPES :: "string list" where
  "ESTABLISHMENT_TYPES = [
     ''restaurant'', ''cafe'', ''fast_food'', ''bar'', ''pub'',
     ''hospital'', ''clinic'', ''pharmacy'', ''dentist'', ''doctors'',
     ''school'', ''university'', ''college'', ''kindergarten'',
     ''bank'', ''atm'', ''bureau_de_change'',
     ''fuel'', ''charging_station'', ''car_wash'', ''car_rental'',
     ''supermarket'', ''convenience'', ''mall'', ''marketplace'',
     ''police'', ''fire_station'', ''post_office'', ''townhall'',
     ''library'', ''community_centre'', ''social_facility'',
     ''place_of_worship'', ''grave_yard'',
     ''hotel'', ''motel'', ''hostel'', ''guest_house'',
     ''park'', ''playground'', ''sports_centre'', ''swimming_pool'',
     ''cinema'', ''theatre'', ''arts_centre'', ''casino'']"

subsection \<open>State tracking (lines 84-94)\<close>

record state =
  isRunning :: bool
  currentProvinceIndex :: int
  currentTypeIndex :: int
  totalImported :: int
  cycleCount :: int
  startTime :: "int option"
  errors :: int
  lastImportTime :: "int option"

text \<open>The object literal the module starts with.\<close>

definition initial_state :: state where
  "initial_state =
     \<lparr>isRunning = False, currentProvinceIndex = 0, currentTypeIndex = 0, totalImported = 0,
      cycleCount = 0, startTime = None, errors = 0, lastImportTime = None\<rparr>"

subsection \<open>Moving to the next type (lines 287-298 of runContinuousImport)\<close>

definition advance :: "state \<Rightarrow> state" where
  "advance s =
     (let s1 = s\<lparr>currentTypeIndex := currentTypeIndex s + 1\<rparr> in
      if currentTypeIndex s1 \<ge> int (length ESTABLISHMENT_TYPES) then
        (let s2 = s1\<lparr>currentTypeIndex := 0,
                     currentProvinceIndex := currentProvinceIndex s1 + 1\<rparr> in
         if currentProvinceIndex s2 \<ge> int (length ALL_PROVINCES) then
           s2\<lparr>currentProvinceIndex := 0, cycleCount := cycleCount s2 + 1\<rparr>
         else s2)
      else s1)"

text \<open>The cursor invariant: both indices address an entry of their array.\<close>

definition in_range :: "state \<Rightarrow> bool" where
  "in_range s \<longleftrightarrow>
     0 \<le> currentProvinceIndex s \<and> currentProvinceIndex s < int (length ALL_PROVINCES) \<and>
     0 \<le> currentTypeIndex s \<and> currentTypeIndex s < int (length ESTABLISHMENT_TYPES)"

text \<open>The number of work units completed since the process started, as the cursor counts them.\<close>

definition units_done :: "state \<Rightarrow> int" where
  "units_done s =
     (cycleCount s * int (length ALL_PROVINCES) + currentProvinceIndex s)
        * int (length ESTABLISHMENT_TYPES) + currentTypeIndex s"

subsection \<open>JavaScript values the importer inspects\<close>

text \<open>
  An absent property reads as \<^verbatim>\<open>undefined\<close>, here \<open>None\<close>. \<^verbatim>\<open>a || b\<close> yields \<open>a\<close> when
  \<open>a\<close> is truthy and \<open>b\<close> otherwise; of the numbers only \<open>0\<close> is falsy (parsed JSON holds
  no NaN), of the strings only the empty one.
\<close>

definition truthy_num :: "real option \<Rightarrow> bool" where
  "truthy_num v = (case v of None \<Rightarrow> False | Some x \<Rightarrow> x \<noteq> 0)"

definition truthy_str :: "string option \<Rightarrow> bool" where
  "truthy_str v = (case v of None \<Rightarrow> False | Some x \<Rightarrow> x \<noteq> [])"

definition or_num :: "real option \<Rightarrow> real option \<Rightarrow> real option" where
  "or_num a b = (if truthy_num a then a else b)"

definition or_str :: "string option \<Rightarrow> string option \<Rightarrow> string option" where
  "or_str a b = (if truthy_str a then a else b)"

text \<open>\<^verbatim>\<open>xs[i]\<close>: \<^verbatim>\<open>undefined\<close> outside the array.\<close>

definition js_index :: "'a list \<Rightarrow> int \<Rightarrow> 'a option" where
  "js_index xs i = (if 0 \<le> i \<and> i < int (length xs) then Some (xs ! nat i) else None)"

text \<open>
  \<^verbatim>\<open>parseInt(x)\<close> with no radix, after ECMAScript: the argument is turned into a string
  (\<^verbatim>\<open>undefined\<close> into the text "undefined"), leading white space is dropped, then a sign,
  then a \<^verbatim>\<open>0x\<close> prefix that selects radix 16; the longest run of digits is read and
  \<open>None\<close> (NaN) results when it is empty. A string is a sequence of code units
  below 256, of which 9 to 13, 32 and 160 (the no-break space) are white space; the
  rounding of results beyond \<open>2 ^ 53\<close> is not modelled, it never turns a non-zero result
  into zero.
\<close>

definition is_space :: "char \<Rightarrow> bool" where
  "is_space c \<longleftrightarrow> (of_char c :: nat) \<in> {9, 10, 11, 12, 13, 32, 160}"

definition digit_value :: "char \<Rightarrow> nat" where
  "digit_value c =
     (let n = (of_char c :: nat) in
      if 48 \<le> n \<and> n \<le> 57 then n - 48
      else if 97 \<le> n \<and> n \<le> 122 then n - 87
      else if 65 \<le> n \<and> n \<le> 90 then n - 55
      else 36)"

definition js_parseInt :: "string option \<Rightarrow> int option" where
  "js_parseInt x =
     (let inputString = (case x of None \<Rightarrow> ''undefined'' | Some str \<Rightarrow> str);
          S = dropWhile is_space inputString;
          negative = (S \<noteq> [] \<and> hd S = CHR ''-'');
          S1 = (if S \<noteq> [] \<and> (hd S = CHR ''+'' \<or> hd S = CHR ''-'') then tl S else S);
          hex = (length S1 \<ge> 2 \<and> hd S1 = CHR ''0'' \<and> (S1 ! 1 = CHR ''x'' \<or> S1 ! 1 = CHR ''X''));
          R = (if hex then 16 else 10);
          S2 = (if hex then drop 2 S1 else S1);
          Z = takeWhile (\<lambda>c. digit_value c < R) S2;
          mathInt = foldl (\<lambda>acc c. acc * R + digit_value c) 0 Z
      in if Z = [] then None
         else Some (if negative then - int mathInt else int mathInt))"

subsection \<open>Raw elements and stored documents\<close>

record center =
  center_lat :: "real option"
  center_lon :: "real option"

record element =
  est_lat :: "real option"
  est_lon :: "real option"
  est_center :: "center option"
  est_tags :: "(string \<rightharpoonup> string) option"

record doc =
  doc_name :: string
  category :: string
  latitude :: real
  longitude :: real
  address :: string
  phone :: "string option"
  website :: "string option"
  source :: string
  coordinatesVerified :: bool
  coordinateSource :: string
  addedAt :: int

datatype exn = AxiosError "int option" "string option" | TypeError | MongoError

subsection \<open>The world outside the process\<close>

text \<open>
  The MongoDB collection, the clock and the timers are not code of this repository. The
  collection is the list of its documents in insertion order. Every driver call is written
  to \<open>oplog\<close> and takes its outcome from the script \<open>faults\<close> (\<open>True\<close>: the call
  rejects, as in an outage or on a unique-index violation; an exhausted script means the
  call succeeds). \<open>client_usable\<close> tells whether \<^verbatim>\<open>mongoClient.db(...)\<close> hands out a
  database handle or throws. \<open>now\<close> is what \<^verbatim>\<open>new Date()\<close> reads, in milliseconds;
  \<open>sleeps\<close> lists the durations slept so far. \<open>IMPORT_DELAY\<close> is the value parsed
  from the environment at startup (line 37), 3000 by default.
\<close>

datatype store_call = FindOne real real string | InsertOne doc | FindSortLimit int

record world =
  docs :: "doc list"
  client_usable :: bool
  faults :: "bool list"
  oplog :: "store_call list"
  now :: int
  sleeps :: "int list"
  IMPORT_DELAY :: int

definition sleep :: "int \<Rightarrow> world \<Rightarrow> world" where
  "sleep ms w = w\<lparr>now := now w + ms, sleeps := sleeps w @ [ms]\<rparr>"

definition driver_call :: "store_call \<Rightarrow> world \<Rightarrow> bool \<times> world" where
  "driver_call c w =
     (case faults w of
        [] \<Rightarrow> (False, w\<lparr>oplog := oplog w @ [c]\<rparr>)
      | rejects # script \<Rightarrow> (rejects, w\<lparr>oplog := oplog w @ [c], faults := script\<rparr>))"

text \<open>The deduplication key of a stored document.\<close>

definition has_key :: "real \<Rightarrow> real \<Rightarrow> string \<Rightarrow> doc \<Rightarrow> bool" where
  "has_key la lo n d \<longleftrightarrow> latitude d = la \<and> longitude d = lo \<and> doc_name d = n"

text \<open>
  \<^verbatim>\<open>collection.findOne({latitude, longitude, name})\<close>: the first document equal on the
  three fields, \<^verbatim>\<open>null\<close> when there is none.
\<close>

definition findOne :: "real \<Rightarrow> real \<Rightarrow> string \<Rightarrow> world \<Rightarrow> (exn + doc option) \<times> world" where
  "findOne la lo n w =
     (case driver_call (FindOne la lo n) w of
        (True, w') \<Rightarrow> (Inl MongoError, w')
      | (False, w') \<Rightarrow>
          (Inr (find (has_key la lo n) (docs w')), w'))"

text \<open>\<^verbatim>\<open>collection.insertOne(doc)\<close>: appends the document unless the call rejects.\<close>

definition insertOne :: "doc \<Rightarrow> world \<Rightarrow> (exn + unit) \<times> world" where
  "insertOne d w =
     (case driver_call (InsertOne d) w of
        (True, w') \<Rightarrow> (Inl MongoError, w')
      | (False, w') \<Rightarrow> (Inr (), w'\<lparr>docs := docs w' @ [d]\<rparr>))"

text \<open>
  \<^verbatim>\<open>cursor.limit(n)\<close> after MongoDB's documentation: 0 means no limit, a negative
  \<open>n\<close> limits to \<open>|n|\<close> documents.
\<close>

definition cursor_limit :: "int \<Rightarrow> 'a list \<Rightarrow> 'a list" where
  "cursor_limit n xs = (if n = 0 then xs else take (nat \<bar>n\<bar>) xs)"

text \<open>\<^verbatim>\<open>collection.find({}).sort({ addedAt: -1 }).limit(limit).toArray()\<close>.\<close>

definition find_sort_limit_toArray :: "int \<Rightarrow> world \<Rightarrow> (exn + doc list) \<times> world" where
  "find_sort_limit_toArray limit w =
     (case driver_call (FindSortLimit limit) w of
        (True, w') \<Rightarrow> (Inl MongoError, w')
      | (False, w') \<Rightarrow> (Inr (cursor_limit limit (sort_key (\<lambda>d. - addedAt d) (docs w'))), w'))"

subsection \<open>fetchFromOSM (lines 181-209)\<close>

text \<open>
  What \<^verbatim>\<open>axios.post\<close> yields: a response whose \<^verbatim>\<open>data\<close> is \<^verbatim>\<open>null\<close> or
  \<^verbatim>\<open>undefined\<close> (\<open>NoData\<close>) or a value with or without an \<^verbatim>\<open>elements\<close> array, or a
  rejection carrying \<^verbatim>\<open>error.response?.status\<close> and \<^verbatim>\<open>error.code\<close>. axios rejects on
  a timeout (code \<^verbatim>\<open>ECONNABORTED\<close>), on a network error and on every status outside 2xx.
  The query text only reaches the remote server, so the function is modelled on what the
  call yields.
\<close>

datatype response_data = NoData | Data "element list option"

datatype axios_result = Resolved response_data | Rejected "int option" "string option"

text \<open>The body of the \<^verbatim>\<open>try\<close>, lines 192-197.\<close>

definition fetch_try :: "axios_result \<Rightarrow> exn + element list" where
  "fetch_try r =
     (case r of
        Rejected st cd \<Rightarrow> Inl (AxiosError st cd)
      | Resolved NoData \<Rightarrow> Inl TypeError
      | Resolved (Data None) \<Rightarrow> Inr []
      | Resolved (Data (Some elements)) \<Rightarrow> Inr elements)"

text \<open>The \<^verbatim>\<open>catch\<close>, lines 198-208.\<close>

definition fetch_catch :: "exn \<Rightarrow> world \<Rightarrow> (exn + element list) \<times> world" where
  "fetch_catch error w =
     (let w' = (case error of
                  AxiosError st cd \<Rightarrow>
                    if st = Some 429 then sleep 60000 w
                    else if cd = Some ''ECONNABORTED'' then w
                    else w
                | _ \<Rightarrow> w)
      in (Inr [], w'))"

definition fetchFromOSM :: "axios_result \<Rightarrow> world \<Rightarrow> (exn + element list) \<times> world" where
  "fetchFromOSM r w =
     (case fetch_try r of
        Inr elements \<Rightarrow> (Inr elements, w)
      | Inl error \<Rightarrow> fetch_catch error w)"

subsection \<open>insertToDatabase (lines 211-257)\<close>

definition tag :: "element \<Rightarrow> string \<Rightarrow> string option" where
  "tag est k = (case est_tags est of None \<Rightarrow> None | Some m \<Rightarrow> m k)"

text \<open>\<^verbatim>\<open>est.center?.lat\<close> and \<^verbatim>\<open>est.center?.lon\<close>.\<close>

definition est_center_lat :: "element \<Rightarrow> real option" where
  "est_center_lat est = (case est_center est of None \<Rightarrow> None | Some c \<Rightarrow> center_lat c)"

definition est_center_lon :: "element \<Rightarrow> real option" where
  "est_center_lon est = (case est_center est of None \<Rightarrow> None | Some c \<Rightarrow> center_lon c)"

text \<open>The constants \<^verbatim>\<open>lat\<close> and \<^verbatim>\<open>lon\<close> of lines 221-222.\<close>

definition resolved_lat :: "element \<Rightarrow> real option" where
  "resolved_lat est = or_num (est_lat est) (est_center_lat est)"

definition resolved_lon :: "element \<Rightarrow> real option" where
  "resolved_lon est = or_num (est_lon est) (est_center_lon est)"

text \<open>The \<^verbatim>\<open>name\<close> of the document, line 227.\<close>

definition resolved_name :: "element \<Rightarrow> string" where
  "resolved_name est =
     the (or_str (tag est ''name'')
            (Some (the (or_str (tag est ''amenity'') (Some ''Establishment'')))))"

text \<open>The document literal, lines 226-238.\<close>

definition make_doc :: "element \<Rightarrow> real \<Rightarrow> real \<Rightarrow> int \<Rightarrow> doc" where
  "make_doc est la lo t =
     \<lparr>doc_name = resolved_name est,
      category = the (or_str (tag est ''amenity'') (Some ''general'')),
      latitude = la,
      longitude = lo,
      address = the (or_str (or_str (tag est ''addr:full'') (tag est ''addr:street''))
                      (Some ''Address not available'')),
      phone = or_str (tag est ''phone'') None,
      website = or_str (tag est ''website'') None,
      source = ''OpenStreetMap'',
      coordinatesVerified = True,
      coordinateSource = ''OpenStreetMap'',
      addedAt = t\<rparr>"

text \<open>
  The body of the \<^verbatim>\<open>try\<close> inside the \<^verbatim>\<open>for\<close> loop, lines 221-250. \<open>Inr True\<close>
  stands for \<^verbatim>\<open>inserted++\<close>, \<open>Inr False\<close> for leaving the counter alone.
\<close>

definition insert_try :: "element \<Rightarrow> world \<Rightarrow> (exn + bool) \<times> world" where
  "insert_try est w =
     (let lat = resolved_lat est; lon = resolved_lon est in
      if \<not> truthy_num lat \<or> \<not> truthy_num lon then (Inr False, w)
      else
        (let d = make_doc est (the lat) (the lon) (now w) in
         case findOne (the lat) (the lon) (doc_name d) w of
           (Inl error, w1) \<Rightarrow> (Inl error, w1)
         | (Inr (Some existing), w1) \<Rightarrow> (Inr False, w1)
         | (Inr None, w1) \<Rightarrow>
             (case insertOne d w1 of
                (Inl error, w2) \<Rightarrow> (Inl error, w2)
              | (Inr u, w2) \<Rightarrow> (Inr True, w2))))"

text \<open>The \<^verbatim>\<open>for\<close> loop, lines 219-254: the \<^verbatim>\<open>catch\<close> is empty, the loop goes on.\<close>

fun insert_loop :: "element list \<Rightarrow> int \<Rightarrow> world \<Rightarrow> int \<times> world" where
  "insert_loop [] inserted w = (inserted, w)"
| "insert_loop (est # rest) inserted w =
     (case insert_try est w of
        (Inr True, w') \<Rightarrow> insert_loop rest (inserted + 1) w'
      | (Inr False, w') \<Rightarrow> insert_loop rest inserted w'
      | (Inl error, w') \<Rightarrow> insert_loop rest inserted w')"

definition insertToDatabase :: "element list \<Rightarrow> world \<Rightarrow> (exn + int) \<times> world" where
  "insertToDatabase establishments w =
     (if length establishments = 0 then (Inr 0, w)
      else if \<not> client_usable w then (Inl MongoError, w)
      else (case insert_loop establishments 0 w of (inserted, w') \<Rightarrow> (Inr inserted, w')))"

subsection \<open>runContinuousImport (lines 264-308)\<close>

text \<open>The body of the \<^verbatim>\<open>try\<close>, lines 277-300.\<close>

definition import_try :: "axios_result \<Rightarrow> state \<Rightarrow> world \<Rightarrow> (exn + state) \<times> world" where
  "import_try r s w =
     (case fetchFromOSM r w of
        (Inl error, w1) \<Rightarrow> (Inl error, w1)
      | (Inr elements, w1) \<Rightarrow>
          (case insertToDatabase elements w1 of
             (Inl error, w2) \<Rightarrow> (Inl error, w2)
           | (Inr imported, w2) \<Rightarrow>
               (let s1 = s\<lparr>totalImported := totalImported s + imported,
                            lastImportTime := Some (now w2)\<rparr>
                in (Inr (advance s1), sleep (IMPORT_DELAY w2) w2))))"

text \<open>
  One pass through the \<^verbatim>\<open>while\<close> body, lines 271-306. Line 274 reads
  \<^verbatim>\<open>province.name\<close> outside the \<^verbatim>\<open>try\<close>: with the province index out of range this
  throws out of the loop. The type read at line 272 only enters the log line and the
  query. The \<^verbatim>\<open>catch\<close> counts the error and sleeps ten seconds.
\<close>

definition loop_body :: "axios_result \<Rightarrow> state \<times> world \<Rightarrow> exn + state \<times> world" where
  "loop_body r sw =
     (case sw of (s, w) \<Rightarrow>
        (case js_index ALL_PROVINCES (currentProvinceIndex s) of
           None \<Rightarrow> Inl TypeError
         | Some province \<Rightarrow>
             (case import_try r s w of
                (Inr s', w') \<Rightarrow> Inr (s', w')
              | (Inl error, w') \<Rightarrow> Inr (s\<lparr>errors := errors s + 1\<rparr>, sleep 10000 w'))))"

text \<open>
  The \<^verbatim>\<open>while (state.isRunning)\<close> loop, run for as many passes as there are results of
  \<^verbatim>\<open>axios.post\<close> in the list: the loop itself never ends while the flag is set.
\<close>

fun runContinuousImport :: "axios_result list \<Rightarrow> state \<times> world \<Rightarrow> exn + state \<times> world" where
  "runContinuousImport [] sw = Inr sw"
| "runContinuousImport (r # rs) sw =
     (if isRunning (fst sw) then
        (case loop_body r sw of
           Inl error \<Rightarrow> Inl error
         | Inr sw' \<Rightarrow> runContinuousImport rs sw')
      else Inr sw)"

subsection \<open>Elements without coordinates\<close>

text \<open>
  An element that has neither a direct coordinate pair nor a center-point pair.
\<close>

definition lacks_coordinates :: "element \<Rightarrow> bool" where
  "lacks_coordinates est \<longleftrightarrow>
     est_lat est = None \<and> est_lon est = None \<and>
     est_center_lat est = None \<and> est_center_lon est = None"

subsection \<open>GET /api/recent (lines 154-178)\<close>

text \<open>
  The body handed to \<^verbatim>\<open>res.json\<close> is an object literal: its keys in order, each with
  its value. \<open>JMessage e\<close> stands for \<^verbatim>\<open>error.message\<close> of the exception \<open>e\<close>.
\<close>

datatype json_value = JBool bool | JNumber int | JDocs "doc list" | JMessage exn

type_synonym body = "(string \<times> json_value) list"

record response =
  status :: int
  json :: body

definition api_recent :: "string option \<Rightarrow> world \<Rightarrow> response \<times> world" where
  "api_recent query_limit w =
     (let limit = (case js_parseInt query_limit of
                     None \<Rightarrow> 100
                   | Some n \<Rightarrow> if n = 0 then 100 else n)
      in if \<not> client_usable w
         then (\<lparr>status = 500,
                json = [(''success'', JBool False), (''error'', JMessage MongoError)]\<rparr>, w)
         else
           (case find_sort_limit_toArray limit w of
              (Inr found, w') \<Rightarrow>
                (\<lparr>status = 200,
                  json = [(''success'', JBool True),
                          (''count'', JNumber (int (length found))),
                          (''establishments'', JDocs found)]\<rparr>, w')
            | (Inl error, w') \<Rightarrow>
                (\<lparr>status = 500,
                  json = [(''success'', JBool False), (''error'', JMessage error)]\<rparr>, w')))"

subsection \<open>Sample inputs\<close>

definition sample_world :: world where
  "sample_world =
     \<lparr>docs = [], client_usable = True, faults = [], oplog = [], now = 1000, sleeps = [],
      IMPORT_DELAY = 3000\<rparr>"

definition cafe_node :: element where
  "cafe_node =
     \<lparr>est_lat = Some 14.6, est_lon = Some 121, est_center = None,
      est_tags = Some [''amenity'' \<mapsto> ''cafe'']\<rparr>"

definition untagged_node :: element where
  "untagged_node =
     \<lparr>est_lat = Some 14.6, est_lon = Some 121, est_center = None, est_tags = None\<rparr>"

definition tagged_node :: element where
  "tagged_node =
     \<lparr>est_lat = Some 14.6, est_lon = Some 121, est_center = None,
      est_tags = Some [''name'' \<mapsto> ''Cafe Uno'', ''amenity'' \<mapsto> ''cafe'',
                       ''addr:full'' \<mapsto> ''1 Rizal Ave, Manila'',
                       ''addr:street'' \<mapsto> ''Rizal Ave'',
                       ''phone'' \<mapsto> ''+63 2 555 0100'',
                       ''website'' \<mapsto> ''https://uno.example'']\<rparr>"

definition street_node :: element where
  "street_node =
     \<lparr>est_lat = Some 14.6, est_lon = Some 121, est_center = None,
      est_tags = Some [''amenity'' \<mapsto> ''cafe'', ''addr:street'' \<mapsto> ''Rizal Ave'']\<rparr>"

definition bare_relation :: element where
  "bare_relation =
     \<lparr>est_lat = None, est_lon = None, est_center = None,
      est_tags = Some [''amenity'' \<mapsto> ''cafe'']\<rparr>"

definition equator_node :: element where
  "equator_node =
     \<lparr>est_lat = Some 0, est_lon = Some 121, est_center = None,
      est_tags = Some [''amenity'' \<mapsto> ''cafe'']\<rparr>"

text \<open>A store whose next calls go: existence check answered, insert rejected.\<close>

definition outage_world :: world where
  "outage_world = sample_world\<lparr>faults := [False, True]\<rparr>"

definition running_state :: state where
  "running_state = initial_state\<lparr>isRunning := True\<rparr>"

text \<open>Three stored documents, inserted at times 10, 30 and 20.\<close>

definition three_docs :: "doc list" where
  "three_docs =
     [make_doc cafe_node 14.6 121 10, make_doc untagged_node 14.6 121 30,
      make_doc cafe_node 14.7 121 20]"

definition stocked_world :: world where
  "stocked_world = sample_world\<lparr>docs := three_docs\<rparr>"

section \<open>Properties of the cursor\<close>

lemma length_ALL_PROVINCES: "length ALL_PROVINCES = 20"
  by (simp add: ALL_PROVINCES_def)

lemma length_ESTABLISHMENT_TYPES: "length ESTABLISHMENT_TYPES = 46"
  by (simp add: ESTABLISHMENT_TYPES_def)

lemma advance_in_range: "in_range s \<Longrightarrow> in_range (advance s)"
  by (simp add: in_range_def advance_def Let_def length_ALL_PROVINCES length_ESTABLISHMENT_TYPES)

lemma advance_units_done: "in_range s \<Longrightarrow> units_done (advance s) = units_done s + 1"
  by (simp add: in_range_def advance_def units_done_def Let_def
      length_ALL_PROVINCES length_ESTABLISHMENT_TYPES algebra_simps)

lemma funpow_advance:
  "in_range s \<Longrightarrow> in_range ((advance ^^ k) s) \<and> units_done ((advance ^^ k) s) = units_done s + int k"
  by (induction k) (simp_all add: advance_in_range advance_units_done)

lemma digit_split:
  fixes t q m :: int
  assumes "0 \<le> t" "t < m"
  shows "(t + q * m) mod m = t" and "(t + q * m) div m = q"
  using assms by simp_all

lemma cursor_decode:
  assumes "in_range s"
  shows "currentTypeIndex s = units_done s mod 46"
    and "currentProvinceIndex s = (units_done s div 46) mod 20"
    and "cycleCount s = (units_done s div 46) div 20"
proof -
  let ?c = "cycleCount s" and ?p = "currentProvinceIndex s" and ?t = "currentTypeIndex s"
  from assms have r: "0 \<le> ?p" "?p < 20" "0 \<le> ?t" "?t < 46"
    by (simp_all add: in_range_def length_ALL_PROVINCES length_ESTABLISHMENT_TYPES)
  have u: "units_done s = ?t + (?p + ?c * 20) * 46"
    by (simp add: units_done_def length_ALL_PROVINCES length_ESTABLISHMENT_TYPES)
  show "?t = units_done s mod 46"
    unfolding u by (rule digit_split(1)[OF r(3) r(4), symmetric])
  have d: "units_done s div 46 = ?p + ?c * 20"
    unfolding u by (rule digit_split(2)[OF r(3) r(4)])
  show "?p = (units_done s div 46) mod 20"
    unfolding d by (rule digit_split(1)[OF r(1) r(2), symmetric])
  show "?c = (units_done s div 46) div 20"
    unfolding d by (rule digit_split(2)[OF r(1) r(2), symmetric])
qed

lemma cursor_unique:
  assumes "in_range s" "in_range t" "units_done t = units_done s + 920 * d"
  shows "currentProvinceIndex t = currentProvinceIndex s \<and>
         currentTypeIndex t = currentTypeIndex s \<and> cycleCount t = cycleCount s + d"
proof -
  have "920 * d = (d * 20) * 46" by simp
  with assms(3) have e: "units_done t = units_done s + (d * 20) * 46"
    by (simp only:)
  have m: "units_done t mod 46 = units_done s mod 46"
    unfolding e by (rule mod_mult_self1)
  have q: "units_done t div 46 = units_done s div 46 + d * 20"
    unfolding e by (simp only: div_mult_self1 add.commute)
  have m2: "(units_done t div 46) mod 20 = (units_done s div 46) mod 20"
    unfolding q by (rule mod_mult_self1)
  have q2: "(units_done t div 46) div 20 = (units_done s div 46) div 20 + d"
    unfolding q by (simp only: div_mult_self1 add.commute)
  have "currentTypeIndex t = units_done t mod 46"
    by (rule cursor_decode(1)[OF assms(2)])
  also have "\<dots> = currentTypeIndex s"
    unfolding m by (rule cursor_decode(1)[OF assms(1), symmetric])
  finally have ty: "currentTypeIndex t = currentTypeIndex s" .
  have "currentProvinceIndex t = (units_done t div 46) mod 20"
    by (rule cursor_decode(2)[OF assms(2)])
  also have "\<dots> = currentProvinceIndex s"
    unfolding m2 by (rule cursor_decode(2)[OF assms(1), symmetric])
  finally have pr: "currentProvinceIndex t = currentProvinceIndex s" .
  have "cycleCount t = (units_done t div 46) div 20"
    by (rule cursor_decode(3)[OF assms(2)])
  also have "\<dots> = cycleCount s + d"
    unfolding q2 cursor_decode(3)[OF assms(1), symmetric] by (rule refl)
  finally have cy: "cycleCount t = cycleCount s + d" .
  from pr ty cy show ?thesis by (intro conjI)
qed


lemma js_index_province:
  "in_range s \<Longrightarrow> \<exists>p. js_index ALL_PROVINCES (currentProvinceIndex s) = Some p"
  by (simp add: in_range_def js_index_def)

lemma advance_other_fields:
  "totalImported (advance s) = totalImported s"
  "errors (advance s) = errors s"
  "isRunning (advance s) = isRunning s"
  "lastImportTime (advance s) = lastImportTime s"
  by (simp_all add: advance_def Let_def)

lemma in_range_initial_state: "in_range initial_state"
  by (simp add: in_range_def initial_state_def length_ALL_PROVINCES length_ESTABLISHMENT_TYPES)

lemma units_done_initial_state: "units_done initial_state = 0"
  by (simp add: units_done_def initial_state_def)

text \<open>
  C5. From every state that satisfies the cursor invariant, the step at lines 287-298 yields
  a state that satisfies it again, and the cycle count stays or grows by one: it grows
  exactly when the step leaves the last type of the last province. The step is a function
  defined on every state, so it is total and deterministic.
\<close>

theorem advance_preserves_cursor_invariant:
  assumes "in_range s"
  shows "in_range (advance s) \<and>
         cycleCount s \<le> cycleCount (advance s) \<and>
         cycleCount (advance s) =
           cycleCount s +
           (if currentProvinceIndex s = 19 \<and> currentTypeIndex s = 45 then 1 else 0)"
  using assms
  by (simp add: in_range_def advance_def Let_def length_ALL_PROVINCES length_ESTABLISHMENT_TYPES)

theorem advance_preserves_cursor_invariant_witness:
  "in_range (initial_state\<lparr>currentProvinceIndex := 19, currentTypeIndex := 45\<rparr>) \<and>
   in_range (advance (initial_state\<lparr>currentProvinceIndex := 19, currentTypeIndex := 45\<rparr>)) \<and>
   cycleCount (advance (initial_state\<lparr>currentProvinceIndex := 19, currentTypeIndex := 45\<rparr>)) = 1"
proof -
  let ?s = "initial_state\<lparr>currentProvinceIndex := 19, currentTypeIndex := 45\<rparr>"
  have h: "in_range ?s"
    by (simp add: in_range_def initial_state_def length_ALL_PROVINCES length_ESTABLISHMENT_TYPES)
  have c: "cycleCount ?s = 0"
    by (simp add: initial_state_def)
  show ?thesis
    using h c advance_preserves_cursor_invariant [OF h] by simp
qed

text \<open>
  C1, as amended. The catalog has 20 provinces and 46 types. From every state that satisfies
  the cursor invariant, 20 * 46 = 920 steps bring both indices back to where they were and
  add exactly one to the cycle count.
\<close>

theorem advance_full_cycle:
  assumes "in_range s"
  shows "length ALL_PROVINCES * length ESTABLISHMENT_TYPES = 20 * 46 \<and>
         currentProvinceIndex ((advance ^^ (length ALL_PROVINCES * length ESTABLISHMENT_TYPES)) s)
           = currentProvinceIndex s \<and>
         currentTypeIndex ((advance ^^ (length ALL_PROVINCES * length ESTABLISHMENT_TYPES)) s)
           = currentTypeIndex s \<and>
         cycleCount ((advance ^^ (length ALL_PROVINCES * length ESTABLISHMENT_TYPES)) s)
           = cycleCount s + 1"
proof -
  have n: "length ALL_PROVINCES * length ESTABLISHMENT_TYPES = 920"
    by (simp add: length_ALL_PROVINCES length_ESTABLISHMENT_TYPES)
  let ?t = "(advance ^^ 920) s"
  from funpow_advance [OF assms, of 920]
  have r: "in_range ?t" and u: "units_done ?t = units_done s + 920 * 1"
    by simp_all
  from cursor_unique [OF assms r u] show ?thesis
    unfolding n by simp
qed

theorem advance_full_cycle_witness:
  "in_range (initial_state\<lparr>currentProvinceIndex := 7, currentTypeIndex := 30\<rparr>) \<and>
   currentProvinceIndex
     ((advance ^^ (length ALL_PROVINCES * length ESTABLISHMENT_TYPES))
        (initial_state\<lparr>currentProvinceIndex := 7, currentTypeIndex := 30\<rparr>)) = 7 \<and>
   currentTypeIndex
     ((advance ^^ (length ALL_PROVINCES * length ESTABLISHMENT_TYPES))
        (initial_state\<lparr>currentProvinceIndex := 7, currentTypeIndex := 30\<rparr>)) = 30 \<and>
   cycleCount
     ((advance ^^ (length ALL_PROVINCES * length ESTABLISHMENT_TYPES))
        (initial_state\<lparr>currentProvinceIndex := 7, currentTypeIndex := 30\<rparr>)) = 1"
proof -
  let ?s = "initial_state\<lparr>currentProvinceIndex := 7, currentTypeIndex := 30\<rparr>"
  have h: "in_range ?s"
    by (simp add: in_range_def initial_state_def length_ALL_PROVINCES length_ESTABLISHMENT_TYPES)
  have c: "currentProvinceIndex ?s = 7" "currentTypeIndex ?s = 30" "cycleCount ?s + 1 = 1"
    by (simp_all add: initial_state_def)
  show ?thesis
    using advance_full_cycle [OF h] h unfolding c by blast
qed

text \<open>
  C1 as the spec words it, with 19 * 45 = 855 steps, fails: from the initial state the
  cursor then stands at province 18, type 27, and no cycle has been counted.
\<close>

theorem advance_19_times_45_counterexample:
  "in_range initial_state \<and>
   currentProvinceIndex ((advance ^^ (19 * 45)) initial_state) = 18 \<and>
   currentTypeIndex ((advance ^^ (19 * 45)) initial_state) = 27 \<and>
   cycleCount ((advance ^^ (19 * 45)) initial_state) = 0 \<and>
   \<not> (currentProvinceIndex ((advance ^^ (19 * 45)) initial_state)
          = currentProvinceIndex initial_state \<and>
        currentTypeIndex ((advance ^^ (19 * 45)) initial_state)
          = currentTypeIndex initial_state \<and>
        cycleCount ((advance ^^ (19 * 45)) initial_state) = cycleCount initial_state + 1)"
proof -
  let ?t = "(advance ^^ (19 * 45)) initial_state"
  from funpow_advance [OF in_range_initial_state, of "19 * 45"]
  have r: "in_range ?t" and u: "units_done ?t = 855"
    by (simp_all add: units_done_initial_state)
  have "currentTypeIndex ?t = 27" "currentProvinceIndex ?t = 18" "cycleCount ?t = 0"
    unfolding cursor_decode [OF r] u by simp_all
  then show ?thesis
    using in_range_initial_state by (simp add: initial_state_def)
qed

section \<open>Properties of the fetch\<close>

text \<open>
  C4. Whatever \<^verbatim>\<open>axios.post\<close> yields, \<open>fetchFromOSM\<close> returns a sequence and throws
  nothing. When the call is rejected (timeout, network error, a status outside 2xx, a
  rate-limit status) the sequence is empty; on status 429 exactly one sleep of 60000 ms is
  made before the return, on every other rejection none. A response without data, on which
  line 197 throws, ends the same way. The import loop sees a rejected fetch as a pass with
  nothing to import: it returns normally and leaves \<open>errors\<close> and \<open>totalImported\<close> as
  they were.
\<close>

theorem fetchFromOSM_never_throws:
  "fetchFromOSM (Rejected st cd) w =
     (Inr [], if st = Some 429 then sleep 60000 w else w) \<and>
   sleeps (sleep 60000 w) = sleeps w @ [60000] \<and>
   fetchFromOSM (Resolved NoData) w = (Inr [], w) \<and>
   (\<exists>elements w'. fetchFromOSM r w = (Inr elements, w')) \<and>
   (in_range s \<longrightarrow>
      (\<exists>s' w'. loop_body (Rejected st cd) (s, w) = Inr (s', w') \<and>
         errors s' = errors s \<and> totalImported s' = totalImported s \<and>
         docs w' = docs w \<and> oplog w' = oplog w))"
proof -
  have a: "fetchFromOSM (Rejected st cd) w = (Inr [], if st = Some 429 then sleep 60000 w else w)"
    by (simp add: fetchFromOSM_def fetch_try_def fetch_catch_def)
  have b: "fetchFromOSM (Resolved NoData) w = (Inr [], w)"
    by (simp add: fetchFromOSM_def fetch_try_def fetch_catch_def)
  have c: "\<exists>elements w'. fetchFromOSM r w = (Inr elements, w')"
  proof (cases r)
    case (Resolved d)
    then show ?thesis
      by (cases d) (auto simp: fetchFromOSM_def fetch_try_def fetch_catch_def split: option.splits)
  next
    case (Rejected st' cd')
    then show ?thesis
      by (simp add: fetchFromOSM_def fetch_try_def fetch_catch_def)
  qed
  have d: "\<exists>s' w'. loop_body (Rejected st cd) (s, w) = Inr (s', w') \<and>
         errors s' = errors s \<and> totalImported s' = totalImported s \<and>
         docs w' = docs w \<and> oplog w' = oplog w"
    if "in_range s"
  proof -
    from js_index_province [OF that] obtain p
      where p: "js_index ALL_PROVINCES (currentProvinceIndex s) = Some p" ..
    show ?thesis
      by (simp add: loop_body_def p import_try_def a insertToDatabase_def
          advance_other_fields sleep_def)
  qed
  from a b c d show ?thesis by (simp add: sleep_def)
qed

theorem fetchFromOSM_never_throws_witness:
  "in_range initial_state \<and>
   fetchFromOSM (Rejected (Some 429) None) sample_world = (Inr [], sleep 60000 sample_world) \<and>
   sleeps (sleep 60000 sample_world) = [60000] \<and>
   (\<exists>s' w'. loop_body (Rejected (Some 429) None) (initial_state, sample_world) = Inr (s', w') \<and>
      errors s' = errors initial_state \<and> totalImported s' = totalImported initial_state \<and>
      docs w' = docs sample_world \<and> oplog w' = oplog sample_world)"
proof -
  have e: "sleeps sample_world = []"
    by (simp add: sample_world_def)
  from fetchFromOSM_never_throws [of "Some 429" None sample_world "Rejected (Some 429) None"
      initial_state]
  show ?thesis
    using in_range_initial_state e by simp
qed

section \<open>Properties of the store pipeline\<close>

lemma not_truthy_skipped:
  assumes "\<not> truthy_num (resolved_lat est) \<or> \<not> truthy_num (resolved_lon est)"
  shows "insert_try est w = (Inr False, w)"
  using assms by (auto simp: insert_try_def Let_def)

lemma lacks_coordinates_not_truthy:
  "lacks_coordinates est \<Longrightarrow> \<not> truthy_num (resolved_lat est)"
  by (simp add: lacks_coordinates_def resolved_lat_def or_num_def truthy_num_def)

lemma insert_loop_all_skipped:
  assumes "\<forall>e \<in> set elements. \<not> truthy_num (resolved_lat e) \<or> \<not> truthy_num (resolved_lon e)"
  shows "insert_loop elements inserted w = (inserted, w)"
  using assms
proof (induction elements)
  case Nil
  show ?case by simp
next
  case (Cons e es)
  then have "insert_try e w = (Inr False, w)"
    by (simp add: not_truthy_skipped)
  with Cons show ?case by simp
qed

lemma loop_body_all_skipped:
  assumes "\<forall>e \<in> set elements. \<not> truthy_num (resolved_lat e) \<or> \<not> truthy_num (resolved_lon e)"
    and "in_range s" and "client_usable w"
  shows "loop_body (Resolved (Data (Some elements))) (s, w) =
           Inr (advance (s\<lparr>lastImportTime := Some (now w)\<rparr>), sleep (IMPORT_DELAY w) w)"
proof -
  from js_index_province [OF assms(2)] obtain p
    where p: "js_index ALL_PROVINCES (currentProvinceIndex s) = Some p" ..
  have i: "insertToDatabase elements w = (Inr 0, w)"
    using assms(3) by (simp add: insertToDatabase_def insert_loop_all_skipped [OF assms(1)])
  have "import_try (Resolved (Data (Some elements))) s w =
          (Inr (advance (s\<lparr>lastImportTime := Some (now w)\<rparr>)), sleep (IMPORT_DELAY w) w)"
    by (simp add: import_try_def fetchFromOSM_def fetch_try_def i)
  then show ?thesis
    by (simp add: loop_body_def p)
qed

text \<open>
  C6. An element with no direct and no center coordinates leaves the \<^verbatim>\<open>try\<close> at the
  \<^verbatim>\<open>continue\<close> of line 224: it returns normally, so no \<^verbatim>\<open>catch\<close> sees an error,
  the world is untouched (no call is added to \<open>oplog\<close>, no document to \<open>docs\<close>) and
  the counter \<open>inserted\<close> is as before. A pass of the import loop whose elements all lack
  coordinates leaves \<open>totalImported\<close>, \<open>errors\<close>, the collection and the call log as
  they were.
\<close>

theorem no_coordinates_no_store_interaction:
  assumes "lacks_coordinates est"
  shows "insert_try est w = (Inr False, w) \<and>
         insert_loop (est # rest) inserted w = insert_loop rest inserted w \<and>
         ((\<forall>e \<in> set elements. lacks_coordinates e) \<longrightarrow> in_range s \<longrightarrow> client_usable w \<longrightarrow>
            (\<exists>s' w'. loop_body (Resolved (Data (Some elements))) (s, w) = Inr (s', w') \<and>
               totalImported s' = totalImported s \<and> errors s' = errors s \<and>
               docs w' = docs w \<and> oplog w' = oplog w))"
proof -
  have t: "insert_try est w = (Inr False, w)"
    using lacks_coordinates_not_truthy [OF assms] by (simp add: not_truthy_skipped)
  have l: "insert_loop (est # rest) inserted w = insert_loop rest inserted w"
    using t by simp
  have b: "\<exists>s' w'. loop_body (Resolved (Data (Some elements))) (s, w) = Inr (s', w') \<and>
               totalImported s' = totalImported s \<and> errors s' = errors s \<and>
               docs w' = docs w \<and> oplog w' = oplog w"
    if "\<forall>e \<in> set elements. lacks_coordinates e" "in_range s" "client_usable w"
  proof -
    from that(1)
    have "\<forall>e \<in> set elements. \<not> truthy_num (resolved_lat e) \<or> \<not> truthy_num (resolved_lon e)"
      by (simp add: lacks_coordinates_not_truthy)
    from loop_body_all_skipped [OF this that(2) that(3)] show ?thesis
      by (simp add: advance_other_fields sleep_def)
  qed
  from t l b show ?thesis by blast
qed

theorem no_coordinates_no_store_interaction_witness:
  "lacks_coordinates bare_relation \<and>
   insert_try bare_relation sample_world = (Inr False, sample_world) \<and>
   in_range initial_state \<and> client_usable sample_world \<and>
   (\<exists>s' w'. loop_body (Resolved (Data (Some [bare_relation, bare_relation])))
              (initial_state, sample_world) = Inr (s', w') \<and>
      totalImported s' = totalImported initial_state \<and> errors s' = errors initial_state \<and>
      docs w' = docs sample_world \<and> oplog w' = oplog sample_world)"
proof -
  have h: "lacks_coordinates bare_relation"
    by (simp add: lacks_coordinates_def bare_relation_def est_center_lat_def est_center_lon_def)
  have c: "client_usable sample_world"
    by (simp add: sample_world_def)
  have a: "\<forall>e \<in> set [bare_relation, bare_relation]. lacks_coordinates e"
    using h by simp
  from no_coordinates_no_store_interaction
    [OF h, of sample_world "[]" 0 "[bare_relation, bare_relation]" initial_state]
  show ?thesis
    using h c a in_range_initial_state by blast
qed

text \<open>
  C9. A coordinate that is present but 0 is falsy: an element whose resolved latitude or
  longitude is 0, or whose direct latitude or longitude is 0 with no center to fall back
  on, is dropped at line 224 like an element without coordinates. The world is untouched,
  \<open>inserted\<close> is as before, and a pass of the import loop over such an element leaves
  \<open>totalImported\<close> unchanged.
\<close>

theorem zero_coordinate_discarded:
  assumes "resolved_lat est = Some 0 \<or> resolved_lon est = Some 0 \<or>
           (est_lat est = Some 0 \<and> est_center est = None) \<or>
           (est_lon est = Some 0 \<and> est_center est = None)"
  shows "insert_try est w = (Inr False, w) \<and>
         insert_loop (est # rest) inserted w = insert_loop rest inserted w \<and>
         (lacks_coordinates est' \<longrightarrow> insert_try est w = insert_try est' w) \<and>
         (in_range s \<longrightarrow> client_usable w \<longrightarrow>
            (\<exists>s' w'. loop_body (Resolved (Data (Some [est]))) (s, w) = Inr (s', w') \<and>
               totalImported s' = totalImported s \<and> docs w' = docs w \<and> oplog w' = oplog w))"
proof -
  have n: "\<not> truthy_num (resolved_lat est) \<or> \<not> truthy_num (resolved_lon est)"
    using assms
    by (auto simp: resolved_lat_def resolved_lon_def or_num_def truthy_num_def
        est_center_lat_def est_center_lon_def)
  have t: "insert_try est w = (Inr False, w)"
    using n by (rule not_truthy_skipped)
  have l: "insert_loop (est # rest) inserted w = insert_loop rest inserted w"
    using t by simp
  have e: "insert_try est w = insert_try est' w" if "lacks_coordinates est'"
    using t lacks_coordinates_not_truthy [OF that] by (simp add: not_truthy_skipped)
  have b: "\<exists>s' w'. loop_body (Resolved (Data (Some [est]))) (s, w) = Inr (s', w') \<and>
             totalImported s' = totalImported s \<and> docs w' = docs w \<and> oplog w' = oplog w"
    if "in_range s" "client_usable w"
  proof -
    have "\<forall>e \<in> set [est]. \<not> truthy_num (resolved_lat e) \<or> \<not> truthy_num (resolved_lon e)"
      using n by simp
    from loop_body_all_skipped [OF this that] show ?thesis
      by (simp add: advance_other_fields sleep_def)
  qed
  from t l e b show ?thesis by blast
qed

theorem zero_coordinate_discarded_witness:
  "est_lat equator_node = Some 0 \<and> est_center equator_node = None \<and>
   lacks_coordinates bare_relation \<and>
   insert_try equator_node sample_world = (Inr False, sample_world) \<and>
   insert_try equator_node sample_world = insert_try bare_relation sample_world \<and>
   in_range initial_state \<and> client_usable sample_world \<and>
   (\<exists>s' w'. loop_body (Resolved (Data (Some [equator_node]))) (initial_state, sample_world)
              = Inr (s', w') \<and>
      totalImported s' = totalImported initial_state \<and>
      docs w' = docs sample_world \<and> oplog w' = oplog sample_world)"
proof -
  have z: "est_lat equator_node = Some 0" "est_center equator_node = None"
    by (simp_all add: equator_node_def)
  have h: "lacks_coordinates bare_relation"
    by (simp add: lacks_coordinates_def bare_relation_def est_center_lat_def est_center_lon_def)
  have c: "client_usable sample_world"
    by (simp add: sample_world_def)
  have a: "resolved_lat equator_node = Some 0 \<or> resolved_lon equator_node = Some 0 \<or>
           (est_lat equator_node = Some 0 \<and> est_center equator_node = None) \<or>
           (est_lon equator_node = Some 0 \<and> est_center equator_node = None)"
    using z by simp
  from zero_coordinate_discarded [OF a, of sample_world "[]" 0 bare_relation initial_state]
  show ?thesis
    using z h c in_range_initial_state by blast
qed

lemma driver_call_healthy:
  "faults w = [] \<Longrightarrow> driver_call c w = (False, w\<lparr>oplog := oplog w @ [c]\<rparr>)"
  by (simp add: driver_call_def)

lemma driver_call_keeps:
  "docs (snd (driver_call c w)) = docs w"
  "client_usable (snd (driver_call c w)) = client_usable w"
  by (simp_all add: driver_call_def split: list.splits)

lemma findOne_keeps:
  "docs (snd (findOne la lo n w)) = docs w"
  "client_usable (snd (findOne la lo n w)) = client_usable w"
  using driver_call_keeps [of "FindOne la lo n" w]
  by (auto simp: findOne_def split: prod.splits bool.splits)

lemma insertOne_keeps:
  "client_usable (snd (insertOne d w)) = client_usable w"
  "fst (insertOne d w) = Inl error \<Longrightarrow> docs (snd (insertOne d w)) = docs w"
  using driver_call_keeps [of "InsertOne d" w]
  by (auto simp: insertOne_def split: prod.splits bool.splits)

lemma insert_try_healthy:
  assumes "truthy_num (resolved_lat est)" "truthy_num (resolved_lon est)" "faults w = []"
  shows "insert_try est w =
    (if \<exists>d \<in> set (docs w).
          has_key (the (resolved_lat est)) (the (resolved_lon est)) (resolved_name est) d
     then (Inr False,
           w\<lparr>oplog := oplog w @
              [FindOne (the (resolved_lat est)) (the (resolved_lon est)) (resolved_name est)]\<rparr>)
     else (Inr True,
           w\<lparr>oplog := oplog w @
              [FindOne (the (resolved_lat est)) (the (resolved_lon est)) (resolved_name est),
               InsertOne (make_doc est (the (resolved_lat est)) (the (resolved_lon est)) (now w))],
             docs := docs w @
              [make_doc est (the (resolved_lat est)) (the (resolved_lon est)) (now w)]\<rparr>))"
proof -
  let ?P = "has_key (the (resolved_lat est)) (the (resolved_lon est)) (resolved_name est)"
  have n: "doc_name (make_doc est la lo t) = resolved_name est" for la lo t
    by (simp add: make_doc_def)
  show ?thesis
  proof (cases "find ?P (docs w)")
    case None
    then have "\<not> (\<exists>d \<in> set (docs w). ?P d)"
      by (auto simp: find_None_iff)
    with None assms show ?thesis
      by (simp add: insert_try_def Let_def n findOne_def insertOne_def driver_call_healthy)
  next
    case (Some x)
    then have "find ?P (docs w) \<noteq> None" by simp
    then have "\<exists>d \<in> set (docs w). ?P d"
      by (auto simp: find_None_iff)
    with Some assms show ?thesis
      by (simp add: insert_try_def Let_def n findOne_def insertOne_def driver_call_healthy)
  qed
qed

text \<open>
  C7. The document built for an element with coordinates: the name is the \<^verbatim>\<open>amenity\<close>
  tag when there is no \<^verbatim>\<open>name\<close> tag (and the text Establishment when there is neither),
  the category is \<^verbatim>\<open>general\<close> when there is no \<^verbatim>\<open>amenity\<close> tag, the address is the
  text "Address not available" when there is neither \<^verbatim>\<open>addr:full\<close> nor
  \<^verbatim>\<open>addr:street\<close>, phone and website are null when their tags are absent. The
  coordinates are the ones passed in. It is this document, built from the resolved
  coordinates, that a store which answers its calls and lacks the key receives. A tag
  that is present and not empty is used as it is: \<^verbatim>\<open>name\<close>, \<^verbatim>\<open>amenity\<close>,
  \<^verbatim>\<open>addr:full\<close> (before \<^verbatim>\<open>addr:street\<close>), \<^verbatim>\<open>phone\<close> and \<^verbatim>\<open>website\<close>.
\<close>

theorem make_doc_fallbacks:
  "(tag est ''name'' = None \<longrightarrow> tag est ''amenity'' = Some a \<longrightarrow> a \<noteq> [] \<longrightarrow>
      doc_name (make_doc est la lo t) = a \<and> category (make_doc est la lo t) = a) \<and>
   (tag est ''name'' = None \<longrightarrow> tag est ''amenity'' = None \<longrightarrow>
      doc_name (make_doc est la lo t) = ''Establishment'') \<and>
   (tag est ''amenity'' = None \<longrightarrow> category (make_doc est la lo t) = ''general'') \<and>
   (tag est ''addr:full'' = None \<longrightarrow> tag est ''addr:street'' = None \<longrightarrow>
      address (make_doc est la lo t) = ''Address not available'') \<and>
   (tag est ''phone'' = None \<longrightarrow> phone (make_doc est la lo t) = None) \<and>
   (tag est ''website'' = None \<longrightarrow> website (make_doc est la lo t) = None) \<and>
   latitude (make_doc est la lo t) = la \<and> longitude (make_doc est la lo t) = lo \<and>
   (truthy_num (resolved_lat est) \<longrightarrow> truthy_num (resolved_lon est) \<longrightarrow> faults w = [] \<longrightarrow>
    filter (has_key (the (resolved_lat est)) (the (resolved_lon est)) (resolved_name est))
      (docs w) = [] \<longrightarrow>
      docs (snd (insert_try est w)) =
        docs w @ [make_doc est (the (resolved_lat est)) (the (resolved_lon est)) (now w)]) \<and>
   (tag est ''name'' = Some n \<longrightarrow> n \<noteq> [] \<longrightarrow> doc_name (make_doc est la lo t) = n) \<and>
   (tag est ''amenity'' = Some c \<longrightarrow> c \<noteq> [] \<longrightarrow> category (make_doc est la lo t) = c) \<and>
   (tag est ''addr:full'' = Some f \<longrightarrow> f \<noteq> [] \<longrightarrow> address (make_doc est la lo t) = f) \<and>
   (tag est ''addr:full'' = None \<longrightarrow> tag est ''addr:street'' = Some r \<longrightarrow> r \<noteq> [] \<longrightarrow>
      address (make_doc est la lo t) = r) \<and>
   (tag est ''phone'' = Some p \<longrightarrow> p \<noteq> [] \<longrightarrow> phone (make_doc est la lo t) = Some p) \<and>
   (tag est ''website'' = Some u \<longrightarrow> u \<noteq> [] \<longrightarrow> website (make_doc est la lo t) = Some u)"
proof -
  have stored: "docs (snd (insert_try est w)) =
        docs w @ [make_doc est (the (resolved_lat est)) (the (resolved_lon est)) (now w)]"
    if "truthy_num (resolved_lat est)" "truthy_num (resolved_lon est)" "faults w = []"
      "filter (has_key (the (resolved_lat est)) (the (resolved_lon est)) (resolved_name est))
         (docs w) = []"
    using insert_try_healthy [OF that(1,2,3)] that(4) by (simp add: filter_empty_conv)
  have fields:
   "(tag est ''name'' = None \<longrightarrow> tag est ''amenity'' = Some a \<longrightarrow> a \<noteq> [] \<longrightarrow>
      doc_name (make_doc est la lo t) = a \<and> category (make_doc est la lo t) = a) \<and>
   (tag est ''name'' = None \<longrightarrow> tag est ''amenity'' = None \<longrightarrow>
      doc_name (make_doc est la lo t) = ''Establishment'') \<and>
   (tag est ''amenity'' = None \<longrightarrow> category (make_doc est la lo t) = ''general'') \<and>
   (tag est ''addr:full'' = None \<longrightarrow> tag est ''addr:street'' = None \<longrightarrow>
      address (make_doc est la lo t) = ''Address not available'') \<and>
   (tag est ''phone'' = None \<longrightarrow> phone (make_doc est la lo t) = None) \<and>
   (tag est ''website'' = None \<longrightarrow> website (make_doc est la lo t) = None) \<and>
   latitude (make_doc est la lo t) = la \<and> longitude (make_doc est la lo t) = lo"
    by (simp add: make_doc_def resolved_name_def or_str_def truthy_str_def)
  have present:
   "(tag est ''name'' = Some n \<longrightarrow> n \<noteq> [] \<longrightarrow> doc_name (make_doc est la lo t) = n) \<and>
   (tag est ''amenity'' = Some c \<longrightarrow> c \<noteq> [] \<longrightarrow> category (make_doc est la lo t) = c) \<and>
   (tag est ''addr:full'' = Some f \<longrightarrow> f \<noteq> [] \<longrightarrow> address (make_doc est la lo t) = f) \<and>
   (tag est ''addr:full'' = None \<longrightarrow> tag est ''addr:street'' = Some r \<longrightarrow> r \<noteq> [] \<longrightarrow>
      address (make_doc est la lo t) = r) \<and>
   (tag est ''phone'' = Some p \<longrightarrow> p \<noteq> [] \<longrightarrow> phone (make_doc est la lo t) = Some p) \<and>
   (tag est ''website'' = Some u \<longrightarrow> u \<noteq> [] \<longrightarrow> website (make_doc est la lo t) = Some u)"
    by (simp add: make_doc_def resolved_name_def or_str_def truthy_str_def)
  from fields stored present show ?thesis by blast
qed

theorem make_doc_fallbacks_witness:
  "doc_name (make_doc cafe_node 14.6 121 1000) = ''cafe'' \<and>
   category (make_doc cafe_node 14.6 121 1000) = ''cafe'' \<and>
   address (make_doc cafe_node 14.6 121 1000) = ''Address not available'' \<and>
   phone (make_doc cafe_node 14.6 121 1000) = None \<and>
   website (make_doc cafe_node 14.6 121 1000) = None \<and>
   doc_name (make_doc untagged_node 14.6 121 1000) = ''Establishment'' \<and>
   category (make_doc untagged_node 14.6 121 1000) = ''general'' \<and>
   docs (snd (insert_try cafe_node sample_world)) = [make_doc cafe_node 14.6 121 1000] \<and>
   doc_name (make_doc tagged_node 14.6 121 1000) = ''Cafe Uno'' \<and>
   category (make_doc tagged_node 14.6 121 1000) = ''cafe'' \<and>
   address (make_doc tagged_node 14.6 121 1000) = ''1 Rizal Ave, Manila'' \<and>
   phone (make_doc tagged_node 14.6 121 1000) = Some ''+63 2 555 0100'' \<and>
   website (make_doc tagged_node 14.6 121 1000) = Some ''https://uno.example'' \<and>
   address (make_doc street_node 14.6 121 1000) = ''Rizal Ave''"
proof -
  have c: "resolved_lat cafe_node = Some 14.6" "resolved_lon cafe_node = Some 121"
    by (simp_all add: resolved_lat_def resolved_lon_def or_num_def truthy_num_def cafe_node_def)
  have w: "faults sample_world = []" "docs sample_world = []" "now sample_world = 1000"
    by (simp_all add: sample_world_def)
  have t: "tag cafe_node ''name'' = None" "tag cafe_node ''amenity'' = Some ''cafe''"
    "tag cafe_node ''addr:full'' = None" "tag cafe_node ''addr:street'' = None"
    "tag cafe_node ''phone'' = None" "tag cafe_node ''website'' = None"
    "tag untagged_node ''name'' = None" "tag untagged_node ''amenity'' = None"
    by (simp_all add: tag_def cafe_node_def untagged_node_def)
  have g: "tag tagged_node ''name'' = Some ''Cafe Uno''" "tag tagged_node ''amenity'' = Some ''cafe''"
    "tag tagged_node ''addr:full'' = Some ''1 Rizal Ave, Manila''"
    "tag tagged_node ''phone'' = Some ''+63 2 555 0100''"
    "tag tagged_node ''website'' = Some ''https://uno.example''"
    "tag street_node ''addr:full'' = None" "tag street_node ''addr:street'' = Some ''Rizal Ave''"
    by (simp_all add: tag_def tagged_node_def street_node_def)
  from make_doc_fallbacks [of cafe_node "''cafe''" "14.6" 121 1000 sample_world]
    make_doc_fallbacks [of untagged_node "''cafe''" "14.6" 121 1000 sample_world]
    make_doc_fallbacks [where est = tagged_node and la = "14.6" and lo = 121 and t = 1000
      and n = "''Cafe Uno''" and c = "''cafe''" and f = "''1 Rizal Ave, Manila''"
      and p = "''+63 2 555 0100''" and u = "''https://uno.example''"]
    make_doc_fallbacks [where est = street_node and la = "14.6" and lo = 121 and t = 1000
      and r = "''Rizal Ave''"]
  show ?thesis
    unfolding c w t g by (simp add: truthy_num_def)
qed









section \<open>Store failures and the import loop\<close>

lemma insert_try_client_usable:
  "client_usable (snd (insert_try est w)) = client_usable w"
proof (cases "\<not> truthy_num (resolved_lat est) \<or> \<not> truthy_num (resolved_lon est)")
  case True
  then show ?thesis by (simp add: not_truthy_skipped)
next
  case False
  let ?d = "make_doc est (the (resolved_lat est)) (the (resolved_lon est)) (now w)"
  obtain a w1 where f: "findOne (the (resolved_lat est)) (the (resolved_lon est)) (doc_name ?d) w = (a, w1)"
    by (cases "findOne (the (resolved_lat est)) (the (resolved_lon est)) (doc_name ?d) w")
  from findOne_keeps(2) [of "the (resolved_lat est)" "the (resolved_lon est)" "doc_name ?d" w] f
  have u1: "client_usable w1 = client_usable w" by simp
  obtain b w2 where i: "insertOne ?d w1 = (b, w2)"
    by (cases "insertOne ?d w1")
  from insertOne_keeps(1) [of ?d w1] i
  have u2: "client_usable w2 = client_usable w1" by simp
  from False f i u1 u2 show ?thesis
    by (auto simp: insert_try_def Let_def split: sum.splits option.splits)
qed

lemma insert_try_failure_stores_nothing:
  assumes "insert_try est w = (Inl error, w')"
  shows "docs w' = docs w"
proof (cases "\<not> truthy_num (resolved_lat est) \<or> \<not> truthy_num (resolved_lon est)")
  case True
  with assms show ?thesis by (simp add: not_truthy_skipped)
next
  case False
  let ?d = "make_doc est (the (resolved_lat est)) (the (resolved_lon est)) (now w)"
  obtain a w1 where f: "findOne (the (resolved_lat est)) (the (resolved_lon est)) (doc_name ?d) w = (a, w1)"
    by (cases "findOne (the (resolved_lat est)) (the (resolved_lon est)) (doc_name ?d) w")
  from findOne_keeps(1) [of "the (resolved_lat est)" "the (resolved_lon est)" "doc_name ?d" w] f
  have d1: "docs w1 = docs w" by simp
  obtain b w2 where i: "insertOne ?d w1 = (b, w2)"
    by (cases "insertOne ?d w1")
  from insertOne_keeps(2) [of ?d w1] i
  have d2: "b = Inl e \<Longrightarrow> docs w2 = docs w1" for e by simp
  from False f i d1 d2 assms show ?thesis
    by (auto simp: insert_try_def Let_def split: sum.splits option.splits)
qed

lemma insert_loop_client_usable:
  "client_usable (snd (insert_loop elements inserted w)) = client_usable w"
proof (induction elements arbitrary: inserted w)
  case Nil
  show ?case by simp
next
  case (Cons est rest)
  obtain a w1 where t: "insert_try est w = (a, w1)"
    by (cases "insert_try est w")
  from insert_try_client_usable [of est w] t
  have u: "client_usable w1 = client_usable w" by simp
  show ?case
    using Cons.IH [of _ w1] t u
    by (auto split: sum.splits bool.splits)
qed

lemma fetchFromOSM_returns:
  "\<exists>elements w'. fetchFromOSM r w = (Inr elements, w') \<and> client_usable w' = client_usable w"
proof (cases r)
  case (Resolved d)
  then show ?thesis
    by (cases d) (auto simp: fetchFromOSM_def fetch_try_def fetch_catch_def split: option.splits)
next
  case (Rejected st cd)
  then show ?thesis
    by (simp add: fetchFromOSM_def fetch_try_def fetch_catch_def sleep_def)
qed

lemma insertToDatabase_returns:
  assumes "client_usable w"
  shows "\<exists>imported w'. insertToDatabase elements w = (Inr imported, w') \<and> client_usable w'"
proof -
  obtain n w1 where l: "insert_loop elements 0 w = (n, w1)"
    by (cases "insert_loop elements 0 w")
  from insert_loop_client_usable [of elements 0 w] l assms
  have "client_usable w1" by simp
  with l assms show ?thesis
    by (simp add: insertToDatabase_def del: insert_loop.simps)
qed

lemma in_range_other_fields:
  "in_range (s\<lparr>totalImported := n, lastImportTime := t\<rparr>) = in_range s"
  "units_done (s\<lparr>totalImported := n, lastImportTime := t\<rparr>) = units_done s"
  by (simp_all add: in_range_def units_done_def)

lemma loop_body_continues:
  assumes "in_range s" "client_usable w"
  shows "\<exists>s' w'. loop_body r (s, w) = Inr (s', w') \<and> errors s' = errors s \<and>
           isRunning s' = isRunning s \<and> in_range s' \<and>
           units_done s' = units_done s + 1 \<and> client_usable w'"
proof -
  from js_index_province [OF assms(1)] obtain p
    where p: "js_index ALL_PROVINCES (currentProvinceIndex s) = Some p" ..
  from fetchFromOSM_returns [of r w] assms(2) obtain elements w1
    where f: "fetchFromOSM r w = (Inr elements, w1)" and u1: "client_usable w1"
    by auto
  from insertToDatabase_returns [OF u1, of elements] obtain imported w2
    where i: "insertToDatabase elements w1 = (Inr imported, w2)" and u2: "client_usable w2"
    by auto
  let ?s1 = "s\<lparr>totalImported := totalImported s + imported, lastImportTime := Some (now w2)\<rparr>"
  have b: "loop_body r (s, w) = Inr (advance ?s1, sleep (IMPORT_DELAY w2) w2)"
    by (simp add: loop_body_def p import_try_def f i)
  have r1: "in_range ?s1" and d1: "units_done ?s1 = units_done s"
    using assms(1) by (simp_all only: in_range_other_fields)
  have "errors (advance ?s1) = errors s" "isRunning (advance ?s1) = isRunning s"
    by (simp_all add: advance_other_fields)
  moreover have "in_range (advance ?s1)"
    using r1 by (rule advance_in_range)
  moreover have "units_done (advance ?s1) = units_done s + 1"
    using advance_units_done [OF r1] d1 by simp
  moreover have "client_usable (sleep (IMPORT_DELAY w2) w2)"
    using u2 by (simp add: sleep_def)
  ultimately show ?thesis
    using b by blast
qed

lemma runContinuousImport_continues:
  assumes "in_range s" "client_usable w" "isRunning s"
  shows "\<exists>s' w'. runContinuousImport rs (s, w) = Inr (s', w') \<and> errors s' = errors s \<and>
           isRunning s' \<and> in_range s' \<and> units_done s' = units_done s + int (length rs)"
  using assms
proof (induction rs arbitrary: s w)
  case Nil
  then show ?case by simp
next
  case (Cons r rs)
  from loop_body_continues [OF Cons.prems(1) Cons.prems(2), of r] obtain s1 w1
    where b: "loop_body r (s, w) = Inr (s1, w1)" and e: "errors s1 = errors s"
      and g: "isRunning s1 = isRunning s" and i: "in_range s1"
      and d: "units_done s1 = units_done s + 1" and u: "client_usable w1"
    by blast
  from g Cons.prems(3) have g1: "isRunning s1" by simp
  from Cons.IH [OF i u g1] obtain s' w'
    where "runContinuousImport rs (s1, w1) = Inr (s', w')" "errors s' = errors s1"
      "isRunning s'" "in_range s'" "units_done s' = units_done s1 + int (length rs)"
    by blast
  with b e d Cons.prems(3) show ?case
    by simp
qed

lemma insert_try_outage:
  "insert_try cafe_node outage_world =
     (Inl MongoError,
      outage_world\<lparr>faults := [],
        oplog := [FindOne 14.6 121 ''cafe'', InsertOne (make_doc cafe_node 14.6 121 1000)]\<rparr>)"
  by (simp add: insert_try_def Let_def findOne_def insertOne_def driver_call_def has_key_def
      resolved_lat_def resolved_lon_def or_num_def truthy_num_def
      make_doc_def resolved_name_def or_str_def truthy_str_def tag_def
      cafe_node_def outage_world_def sample_world_def)

text \<open>
  C2. The claim asks that an insert which fails for a reason other than duplication add one
  to the error counter. The code does not do that. One fetched element, the existence
  check answered and the insert rejected by the store: the pass ends with \<open>errors\<close>
  still 0, not 1; nothing is stored or counted as imported and the cursor has moved on.
  The \<^verbatim>\<open>catch\<close> of lines 251-253, commented "Skip duplicates silently", has swallowed
  a rejection that is no duplicate. The \<^verbatim>\<open>catch\<close> of lines 302-306 does count a store
  failure that reaches it: the same pass with an unusable database handle ends with
  \<open>errors\<close> at 1 and the cursor where it was.
\<close>

theorem insert_outage_not_counted:
  "insert_try cafe_node outage_world =
     (Inl MongoError,
      outage_world\<lparr>faults := [],
        oplog := [FindOne 14.6 121 ''cafe'', InsertOne (make_doc cafe_node 14.6 121 1000)]\<rparr>) \<and>
   loop_body (Resolved (Data (Some [cafe_node]))) (running_state, outage_world) =
     Inr (running_state\<lparr>currentTypeIndex := 1, lastImportTime := Some 1000\<rparr>,
          outage_world\<lparr>faults := [],
            oplog := [FindOne 14.6 121 ''cafe'', InsertOne (make_doc cafe_node 14.6 121 1000)],
            now := 4000, sleeps := [3000]\<rparr>) \<and>
   errors running_state = 0 \<and>
   errors (running_state\<lparr>currentTypeIndex := 1, lastImportTime := Some 1000\<rparr>) = 0 \<and>
   totalImported (running_state\<lparr>currentTypeIndex := 1, lastImportTime := Some 1000\<rparr>) = 0 \<and>
   docs (outage_world\<lparr>faults := [],
            oplog := [FindOne 14.6 121 ''cafe'', InsertOne (make_doc cafe_node 14.6 121 1000)],
            now := 4000, sleeps := [3000]\<rparr>) = [] \<and>
   loop_body (Resolved (Data (Some [cafe_node])))
       (running_state, outage_world\<lparr>client_usable := False\<rparr>) =
     Inr (running_state\<lparr>errors := 1\<rparr>,
          outage_world\<lparr>client_usable := False, now := 11000, sleeps := [10000]\<rparr>)"
proof -
  have i: "insertToDatabase [cafe_node] outage_world =
     (Inr 0, outage_world\<lparr>faults := [],
        oplog := [FindOne 14.6 121 ''cafe'', InsertOne (make_doc cafe_node 14.6 121 1000)]\<rparr>)"
    by (simp add: insertToDatabase_def insert_try_outage)
      (simp add: outage_world_def sample_world_def)
  have p: "js_index ALL_PROVINCES (currentProvinceIndex running_state) = Some (ALL_PROVINCES ! 0)"
    by (simp add: js_index_def running_state_def initial_state_def length_ALL_PROVINCES)
  have b: "loop_body (Resolved (Data (Some [cafe_node]))) (running_state, outage_world) =
     Inr (running_state\<lparr>currentTypeIndex := 1, lastImportTime := Some 1000\<rparr>,
          outage_world\<lparr>faults := [],
            oplog := [FindOne 14.6 121 ''cafe'', InsertOne (make_doc cafe_node 14.6 121 1000)],
            now := 4000, sleeps := [3000]\<rparr>)"
    by (simp add: loop_body_def p import_try_def fetchFromOSM_def fetch_try_def i)
      (simp add: advance_def Let_def length_ESTABLISHMENT_TYPES sleep_def
        running_state_def initial_state_def outage_world_def sample_world_def)
  have j: "insertToDatabase [cafe_node] (outage_world\<lparr>client_usable := False\<rparr>) =
     (Inl MongoError, outage_world\<lparr>client_usable := False\<rparr>)"
    by (simp add: insertToDatabase_def)
  have c: "loop_body (Resolved (Data (Some [cafe_node])))
       (running_state, outage_world\<lparr>client_usable := False\<rparr>) =
     Inr (running_state\<lparr>errors := 1\<rparr>,
          outage_world\<lparr>client_usable := False, now := 11000, sleeps := [10000]\<rparr>)"
    by (simp add: loop_body_def p import_try_def fetchFromOSM_def fetch_try_def j)
      (simp add: sleep_def running_state_def initial_state_def outage_world_def sample_world_def)
  show ?thesis
    using insert_try_outage b c
    by (simp add: running_state_def initial_state_def outage_world_def sample_world_def)
qed

theorem insert_outage_not_counted_witness:
  "errors (fst (projr (loop_body (Resolved (Data (Some [cafe_node])))
                        (running_state, outage_world)))) = 0 \<and>
   docs (snd (projr (loop_body (Resolved (Data (Some [cafe_node])))
                      (running_state, outage_world)))) = [] \<and>
   errors (fst (projr (loop_body (Resolved (Data (Some [cafe_node])))
                        (running_state, outage_world\<lparr>client_usable := False\<rparr>)))) = 1"
  using insert_outage_not_counted by simp

text \<open>
  What does hold of the code on a rejected store call: the record is skipped, nothing is
  stored for it, \<open>inserted\<close> does not count it, and the loop goes on with the records
  after it. With a usable database handle every pass of the import loop, whatever the
  store answers, returns normally, keeps \<open>isRunning\<close> and moves the cursor on by one work
  unit, so a run of any length processes all its work units; in such a run no rejection
  reaches the \<^verbatim>\<open>catch\<close> that counts.
\<close>

lemma rejected_store_call_skipped:
  "(insert_try est w = (Inl error, w') \<longrightarrow>
      docs w' = docs w \<and>
      insert_loop (est # rest) inserted w = insert_loop rest inserted w') \<and>
   (in_range s \<longrightarrow> client_usable w \<longrightarrow>
      (\<exists>s1 w1. loop_body r (s, w) = Inr (s1, w1) \<and> errors s1 = errors s \<and>
         isRunning s1 = isRunning s \<and> in_range s1 \<and> units_done s1 = units_done s + 1)) \<and>
   (in_range s \<longrightarrow> client_usable w \<longrightarrow> isRunning s \<longrightarrow>
      (\<exists>s2 w2. runContinuousImport rs (s, w) = Inr (s2, w2) \<and> errors s2 = errors s \<and>
         units_done s2 = units_done s + int (length rs)))"
proof -
  have a: "docs w' = docs w \<and> insert_loop (est # rest) inserted w = insert_loop rest inserted w'"
    if "insert_try est w = (Inl error, w')"
    using that insert_try_failure_stores_nothing [OF that] by simp
  have b: "\<exists>s1 w1. loop_body r (s, w) = Inr (s1, w1) \<and> errors s1 = errors s \<and>
         isRunning s1 = isRunning s \<and> in_range s1 \<and> units_done s1 = units_done s + 1"
    if "in_range s" "client_usable w"
    using loop_body_continues [OF that, of r] by blast
  have c: "\<exists>s2 w2. runContinuousImport rs (s, w) = Inr (s2, w2) \<and> errors s2 = errors s \<and>
         units_done s2 = units_done s + int (length rs)"
    if "in_range s" "client_usable w" "isRunning s"
    using runContinuousImport_continues [OF that, of rs] by blast
  from a b c show ?thesis by blast
qed

section \<open>Properties of GET /api/recent\<close>

lemma cursor_limit_take:
  "cursor_limit n xs = take (if n = 0 then length xs else nat \<bar>n\<bar>) xs"
  by (simp add: cursor_limit_def)

lemma newest_first_prefix:
  fixes ds :: "doc list"
  defines "xs \<equiv> sort_key (\<lambda>d. - addedAt d) ds"
  shows "sorted_wrt (\<lambda>a b. addedAt b \<le> addedAt a) (take k xs)"
    and "mset ds = mset (take k xs) + mset (drop k xs)"
    and "\<forall>y \<in> set (take k xs). \<forall>x \<in> set (drop k xs). addedAt x \<le> addedAt y"
proof -
  have "sorted (map (\<lambda>d. - addedAt d) xs)"
    unfolding xs_def by (rule sorted_sort_key)
  then have s: "sorted_wrt (\<lambda>a b. addedAt b \<le> addedAt a) xs"
    by (simp add: sorted_map)
  then have "sorted_wrt (\<lambda>a b. addedAt b \<le> addedAt a) (take k xs @ drop k xs)"
    by simp
  then show "sorted_wrt (\<lambda>a b. addedAt b \<le> addedAt a) (take k xs)"
    and "\<forall>y \<in> set (take k xs). \<forall>x \<in> set (drop k xs). addedAt x \<le> addedAt y"
    unfolding sorted_wrt_append by blast+
  have "mset (take k xs) + mset (drop k xs) = mset (take k xs @ drop k xs)"
    by (rule mset_append [symmetric])
  also have "\<dots> = mset xs"
    by simp
  also have "\<dots> = mset ds"
    unfolding xs_def by simp
  finally show "mset ds = mset (take k xs) + mset (drop k xs)"
    by (rule sym)
qed

lemma find_sort_limit_toArray_result:
  assumes "find_sort_limit_toArray limit w = (Inr found, w')"
  shows "found = cursor_limit limit (sort_key (\<lambda>d. - addedAt d) (docs w))"
  using assms driver_call_keeps(1) [of "FindSortLimit limit" w]
  by (auto simp: find_sort_limit_toArray_def split: prod.splits bool.splits)

lemma api_recent_ok:
  assumes "api_recent query_limit w = (res, w')" "status res = 200"
  shows "\<exists>limit. json res =
           [(''success'', JBool True),
            (''count'', JNumber (int (length (cursor_limit limit
                                   (sort_key (\<lambda>d. - addedAt d) (docs w)))))),
            (''establishments'', JDocs (cursor_limit limit
                                   (sort_key (\<lambda>d. - addedAt d) (docs w))))] \<and>
         limit = (case js_parseInt query_limit of None \<Rightarrow> 100
                  | Some n \<Rightarrow> if n = 0 then 100 else n)"
proof -
  let ?limit = "case js_parseInt query_limit of None \<Rightarrow> 100 | Some n \<Rightarrow> if n = 0 then 100 else n"
  obtain a w1 where f: "find_sort_limit_toArray ?limit w = (a, w1)"
    by (cases "find_sort_limit_toArray ?limit w")
  show ?thesis
  proof (cases a)
    case (Inl e)
    with assms f show ?thesis
      by (auto simp: api_recent_def Let_def split: if_splits)
  next
    case (Inr found)
    with f have "found = cursor_limit ?limit (sort_key (\<lambda>d. - addedAt d) (docs w))"
      by (simp add: find_sort_limit_toArray_result)
    with Inr assms f show ?thesis
      by (auto simp: api_recent_def Let_def split: if_splits)
  qed
qed

lemma api_recent_succeeds:
  assumes "client_usable w" "faults w = []"
  shows "status (fst (api_recent query_limit w)) = 200"
  using assms
  by (simp add: api_recent_def Let_def find_sort_limit_toArray_def driver_call_healthy)

lemma js_parseInt_samples:
  "js_parseInt None = None"
  "js_parseInt (Some ''abc'') = None"
  "js_parseInt (Some []) = None"
  "js_parseInt (Some ''0'') = Some 0"
  "js_parseInt (Some ''-0'') = Some 0"
  "js_parseInt (Some ''2'') = Some 2"
  "js_parseInt (Some ''100'') = Some 100"
  by (simp_all add: js_parseInt_def Let_def is_space_def digit_value_def)

lemma stocked_world_facts:
  "client_usable stocked_world" "faults stocked_world = []" "length (docs stocked_world) = 3"
  by (simp_all add: stocked_world_def sample_world_def three_docs_def)

text \<open>
  C8 as the spec words it fails: the body of a 200 response has no key \<^verbatim>\<open>records\<close>. Its
  keys are \<^verbatim>\<open>success\<close>, \<^verbatim>\<open>count\<close> and \<^verbatim>\<open>establishments\<close>, here for \<^verbatim>\<open>limit=2\<close> on a
  collection of three documents.
\<close>

theorem api_recent_records_key_counterexample:
  "status (fst (api_recent (Some ''2'') stocked_world)) = 200 \<and>
   map fst (json (fst (api_recent (Some ''2'') stocked_world))) =
     [''success'', ''count'', ''establishments''] \<and>
   map_of (json (fst (api_recent (Some ''2'') stocked_world))) ''records'' = None"
proof -
  let ?res = "fst (api_recent (Some ''2'') stocked_world)"
  have ok: "status ?res = 200"
    using stocked_world_facts(1,2) by (rule api_recent_succeeds)
  have p: "api_recent (Some ''2'') stocked_world = (?res, snd (api_recent (Some ''2'') stocked_world))"
    by simp
  from api_recent_ok [OF p ok] obtain limit found
    where "json ?res = [(''success'', JBool True), (''count'', JNumber (int (length found))),
                        (''establishments'', JDocs found)]"
    by blast
  with ok show ?thesis
    by simp
qed

text \<open>
  C8, as amended. When the handler answers with status 200 (it does whenever the database
  handle is usable and the store answers), the body is the object with the keys
  \<^verbatim>\<open>success\<close>, \<^verbatim>\<open>count\<close> and \<^verbatim>\<open>establishments\<close>, in this order; \<^verbatim>\<open>success\<close> is true,
  \<^verbatim>\<open>count\<close> is the length of the \<^verbatim>\<open>establishments\<close> array, the array is ordered by
  \<^verbatim>\<open>addedAt\<close> descending, and it holds the most recent documents of the collection: the
  collection splits into the array and a rest none of whose documents is newer than any
  document of the array. For a positive \<^verbatim>\<open>limit=N\<close> the array has \<open>N\<close> documents, or
  all if there are fewer.
\<close>

theorem api_recent_newest_first:
  assumes "api_recent query_limit w = (res, w')"
  shows "(client_usable w \<longrightarrow> faults w = [] \<longrightarrow> status res = 200) \<and>
         (status res = 200 \<longrightarrow>
            (\<exists>found.
               json res = [(''success'', JBool True),
                           (''count'', JNumber (int (length found))),
                           (''establishments'', JDocs found)] \<and>
               sorted_wrt (\<lambda>a b. addedAt b \<le> addedAt a) found \<and>
               (\<exists>older. mset (docs w) = mset found + mset older \<and>
                  (\<forall>y \<in> set found. \<forall>x \<in> set older. addedAt x \<le> addedAt y)) \<and>
               (\<forall>n. js_parseInt query_limit = Some n \<longrightarrow> 0 < n \<longrightarrow>
                  length found = min (nat n) (length (docs w)))))"
proof -
  have a: "status res = 200" if "client_usable w" "faults w = []"
    using api_recent_succeeds [OF that, of query_limit] assms by simp
  have b: "\<exists>found.
               json res = [(''success'', JBool True),
                           (''count'', JNumber (int (length found))),
                           (''establishments'', JDocs found)] \<and>
               sorted_wrt (\<lambda>a b. addedAt b \<le> addedAt a) found \<and>
               (\<exists>older. mset (docs w) = mset found + mset older \<and>
                  (\<forall>y \<in> set found. \<forall>x \<in> set older. addedAt x \<le> addedAt y)) \<and>
               (\<forall>n. js_parseInt query_limit = Some n \<longrightarrow> 0 < n \<longrightarrow>
                  length found = min (nat n) (length (docs w)))"
    if ok: "status res = 200"
  proof -
    let ?xs = "sort_key (\<lambda>d. - addedAt d) (docs w)"
    from api_recent_ok [OF assms ok] obtain limit
      where j: "json res = [(''success'', JBool True),
                            (''count'', JNumber (int (length (cursor_limit limit ?xs)))),
                            (''establishments'', JDocs (cursor_limit limit ?xs))]"
        and l: "limit = (case js_parseInt query_limit of None \<Rightarrow> 100
                         | Some n \<Rightarrow> if n = 0 then 100 else n)"
      by blast
    let ?k = "if limit = 0 then length ?xs else nat \<bar>limit\<bar>"
    let ?found = "take ?k ?xs"
    have e: "cursor_limit limit ?xs = ?found"
      by (rule cursor_limit_take)
    have shape: "json res = [(''success'', JBool True),
                             (''count'', JNumber (int (length ?found))),
                             (''establishments'', JDocs ?found)]"
      using j unfolding e .
    have ordered: "sorted_wrt (\<lambda>a b. addedAt b \<le> addedAt a) ?found"
      by (rule newest_first_prefix(1))
    have recent: "\<exists>older. mset (docs w) = mset ?found + mset older \<and>
               (\<forall>y \<in> set ?found. \<forall>x \<in> set older. addedAt x \<le> addedAt y)"
      using newest_first_prefix(2) [of "docs w" ?k] newest_first_prefix(3) [of ?k "docs w"]
      by blast
    have size: "length ?found = min (nat n) (length (docs w))"
      if "js_parseInt query_limit = Some n" "0 < n" for n
      using that l by simp
    from shape ordered recent size show ?thesis
      by blast
  qed
  from a b show ?thesis by blast
qed

theorem api_recent_newest_first_witness:
  "client_usable stocked_world \<and> faults stocked_world = [] \<and>
   js_parseInt (Some ''2'') = Some 2 \<and>
   status (fst (api_recent (Some ''2'') stocked_world)) = 200 \<and>
   (\<exists>found.
      json (fst (api_recent (Some ''2'') stocked_world)) =
        [(''success'', JBool True), (''count'', JNumber 2), (''establishments'', JDocs found)] \<and>
      length found = 2 \<and>
      sorted_wrt (\<lambda>a b. addedAt b \<le> addedAt a) found)"
proof -
  let ?res = "fst (api_recent (Some ''2'') stocked_world)"
  have p: "api_recent (Some ''2'') stocked_world = (?res, snd (api_recent (Some ''2'') stocked_world))"
    by simp
  note t = api_recent_newest_first [OF p]
  from t stocked_world_facts(1,2) have ok: "status ?res = 200"
    by blast
  from t ok obtain found
    where j: "json ?res = [(''success'', JBool True), (''count'', JNumber (int (length found))),
                           (''establishments'', JDocs found)]"
      and s: "sorted_wrt (\<lambda>a b. addedAt b \<le> addedAt a) found"
      and n: "\<forall>n. js_parseInt (Some ''2'') = Some n \<longrightarrow> 0 < n \<longrightarrow>
                length found = min (nat n) (length (docs stocked_world))"
    by blast
  from n js_parseInt_samples(6) have "length found = min (nat 2) (length (docs stocked_world))"
    by simp
  then have len: "length found = 2"
    by (simp add: stocked_world_facts(3))
  from j len have j2: "json ?res = [(''success'', JBool True), (''count'', JNumber 2),
                                    (''establishments'', JDocs found)]"
    by simp
  from j2 len s have "\<exists>found.
      json ?res =
        [(''success'', JBool True), (''count'', JNumber 2), (''establishments'', JDocs found)] \<and>
      length found = 2 \<and>
      sorted_wrt (\<lambda>a b. addedAt b \<le> addedAt a) found"
    by blast
  with ok stocked_world_facts(1,2) js_parseInt_samples(6) show ?thesis
    by (intro conjI)
qed

text \<open>
  C10. \<^verbatim>\<open>parseInt(req.query.limit) || 100\<close>: a parameter that is absent, that does not
  start with a number, or that parses to zero gives NaN or 0, which is falsy, and the
  handler then does exactly what it does for \<^verbatim>\<open>limit=100\<close>. In particular
  \<^verbatim>\<open>limit=0\<close> answers with up to 100 documents: all of them when the collection has at
  most 100, and 100 otherwise; \<^verbatim>\<open>count\<close> says so.
\<close>

theorem falsy_limit_defaults_to_100:
  assumes "js_parseInt query_limit = None \<or> js_parseInt query_limit = Some 0"
  shows "js_parseInt None = None \<and> js_parseInt (Some ''abc'') = None \<and>
         js_parseInt (Some ''0'') = Some 0 \<and>
         api_recent query_limit w = api_recent (Some ''100'') w \<and>
         (status (fst (api_recent query_limit w)) = 200 \<longrightarrow>
            (\<exists>found.
               json (fst (api_recent query_limit w)) =
                 [(''success'', JBool True),
                  (''count'', JNumber (int (min 100 (length (docs w))))),
                  (''establishments'', JDocs found)] \<and>
               length found = min 100 (length (docs w))))"
proof -
  have same: "api_recent query_limit w = api_recent (Some ''100'') w"
    using assms by (auto simp: api_recent_def js_parseInt_samples(7))
  have size: "\<exists>found.
               json (fst (api_recent query_limit w)) =
                 [(''success'', JBool True),
                  (''count'', JNumber (int (min 100 (length (docs w))))),
                  (''establishments'', JDocs found)] \<and>
               length found = min 100 (length (docs w))"
    if ok: "status (fst (api_recent query_limit w)) = 200"
  proof -
    have p: "api_recent query_limit w =
               (fst (api_recent query_limit w), snd (api_recent query_limit w))"
      by simp
    from api_recent_ok [OF p ok] assms show ?thesis
      by (auto simp: cursor_limit_def)
  qed
  from same size js_parseInt_samples(1,2,4) show ?thesis
    by blast
qed

theorem falsy_limit_defaults_to_100_witness:
  "js_parseInt (Some ''0'') = Some 0 \<and>
   api_recent (Some ''0'') stocked_world = api_recent (Some ''100'') stocked_world \<and>
   status (fst (api_recent (Some ''0'') stocked_world)) = 200 \<and>
   map_of (json (fst (api_recent (Some ''0'') stocked_world))) ''count'' = Some (JNumber 3)"
proof -
  have a: "js_parseInt (Some ''0'') = None \<or> js_parseInt (Some ''0'') = Some 0"
    by (simp add: js_parseInt_samples(4))
  have ok: "status (fst (api_recent (Some ''0'') stocked_world)) = 200"
    using stocked_world_facts(1,2) by (rule api_recent_succeeds)
  note t = falsy_limit_defaults_to_100 [OF a, of stocked_world]
  from t have same: "api_recent (Some ''0'') stocked_world = api_recent (Some ''100'') stocked_world"
    by blast
  from t ok obtain found
    where "json (fst (api_recent (Some ''0'') stocked_world)) =
             [(''success'', JBool True),
              (''count'', JNumber (int (min 100 (length (docs stocked_world))))),
              (''establishments'', JDocs found)]"
    by blast
  then have three: "map_of (json (fst (api_recent (Some ''0'') stocked_world))) ''count''
                      = Some (JNumber 3)"
    by (simp add: stocked_world_facts(3))
  from js_parseInt_samples(4) same ok three show ?thesis
    by (intro conjI)
qed

end
